theory Spec2Isabelle
  imports Main "HOL-Library.Word"
begin

unbundle bit_operations_syntax

section \<open>JavaScript values\<close>

text \<open>
  \<open>tryCatch\<close> is generic: the value a promise produces and the value it fails with are
  arbitrary JavaScript values, and the type parameters \<open>T\<close> and \<open>E\<close> are erased by the
  compiler. A value is one of the eight language types. A number is its IEEE-754 binary64
  bit pattern; an object is a reference, so that two values are equal exactly when they
  are the same primitive or the same object (equality here is identity of the value,
  under which \<open>NaN\<close> is itself).
\<close>

datatype jsval =
    JUndefined
  | JNull
  | JBool bool
  | JNum "64 word"
  | JBigInt int
  | JStr string
  | JSymbol nat
  | JObj nat

text \<open>
  The truthiness test of \<open>if (result.error)\<close>: \<open>undefined\<close>, \<open>null\<close>, \<open>false\<close>, the zeros,
  \<open>NaN\<close>, \<open>0n\<close> and the empty string are falsy, every other value is truthy. A binary64
  is a zero when all bits but the sign are clear, and a \<open>NaN\<close> when its magnitude bits
  exceed those of infinity.
\<close>

fun truthy :: "jsval \<Rightarrow> bool" where
  "truthy JUndefined = False"
| "truthy JNull = False"
| "truthy (JBool b) = b"
| "truthy (JNum w) =
     (let m = w AND 0x7FFFFFFFFFFFFFFF in m \<noteq> 0 \<and> m \<le> 0x7FF0000000000000)"
| "truthy (JBigInt i) = (i \<noteq> 0)"
| "truthy (JStr s) = (s \<noteq> [])"
| "truthy (JSymbol s) = True"
| "truthy (JObj a) = True"

section \<open>The result types (index.ts, lines 5 to 42)\<close>

text \<open>
  \<open>Success<T>\<close> and \<open>Failure<E>\<close> are both objects with the two fields \<open>data\<close> and \<open>error\<close>;
  there is no tag field. A type parameter is the set of the values of the type.
\<close>

record result =
  data :: jsval
  error :: jsval

definition Success :: "jsval set \<Rightarrow> result \<Rightarrow> bool" where
  "Success T r \<longleftrightarrow> data r \<in> T \<and> error r = JNull"

definition Failure :: "jsval set \<Rightarrow> result \<Rightarrow> bool" where
  "Failure E r \<longleftrightarrow> data r = JNull \<and> error r \<in> E"

definition Result :: "jsval set \<Rightarrow> jsval set \<Rightarrow> result \<Rightarrow> bool" where
  "Result T E r \<longleftrightarrow> Success T r \<or> Failure E r"

text \<open>
  The usage the doc comments and the README give for a result (index.ts, lines 64 to 69):
  \<open>if (result.error) { ... return; }\<close> handles the failure, the code after it uses
  \<open>result.data\<close>.
\<close>

datatype branch = ErrorBranch | DataBranch

definition documented_usage :: "result \<Rightarrow> branch" where
  "documented_usage r = (if truthy (error r) then ErrorBranch else DataBranch)"

section \<open>The store of result objects\<close>

text \<open>
  Each object literal of \<open>tryCatch\<close> creates a new object. The store holds the result
  objects in the order of their creation; a reference is the index of its object. The
  objects that the values \<open>JObj\<close> refer to belong to the caller and are never read or
  written by \<open>tryCatch\<close>, so they have no store here.
\<close>

type_synonym ref = nat
type_synonym heap = "result list"

definition alloc :: "result \<Rightarrow> heap \<Rightarrow> heap \<times> ref" where
  "alloc obj h = (h @ [obj], length h)"

definition deref :: "heap \<Rightarrow> ref \<Rightarrow> result option" where
  "deref h a = (if a < length h then Some (h ! a) else None)"

section \<open>tryCatch (index.ts, lines 105 to 114)\<close>

text \<open>
  A promise is pending, fulfilled with a value or rejected with a value. \<open>await\<close> on a
  promise that never settles never completes (\<open>None\<close>); on a fulfilled promise it
  completes normally with the value, on a rejected one it throws the value.
\<close>

datatype promise_state = Pending | Fulfilled jsval | Rejected jsval

datatype 'a completion = Normal 'a | Throw jsval

fun await_promise :: "promise_state \<Rightarrow> jsval completion option" where
  "await_promise Pending = None"
| "await_promise (Fulfilled v) = Some (Normal v)"
| "await_promise (Rejected e) = Some (Throw e)"

text \<open>The type assertion \<open>error as E\<close> is erased by the compiler: it yields its operand.\<close>

definition as_E :: "jsval \<Rightarrow> jsval" where
  "as_E e = e"

text \<open>
  The \<open>try\<close> block, from the completion of its \<open>await\<close>: a value is bound to \<open>data\<close> and
  \<open>{ data, error: null }\<close> is returned; a throw leaves the block.
\<close>

fun try_block :: "jsval completion \<Rightarrow> heap \<Rightarrow> heap \<times> ref completion" where
  "try_block (Normal d) h =
     (let (h', a) = alloc \<lparr>data = d, error = JNull\<rparr> h in (h', Normal a))"
| "try_block (Throw e) h = (h, Throw e)"

text \<open>The \<open>catch\<close> clause returns \<open>{ data: null, error: error as E }\<close>.\<close>

definition catch_clause :: "jsval \<Rightarrow> heap \<Rightarrow> heap \<times> ref completion" where
  "catch_clause e h =
     (let (h', a) = alloc \<lparr>data = JNull, error = as_E e\<rparr> h in (h', Normal a))"

text \<open>
  The continuation of the function after its \<open>await\<close>: the \<open>try\<close> statement. What the
  block throws goes to the \<open>catch\<close> clause; what the block or the clause returns is the
  function's return value, and a throw of the clause would leave the function.
\<close>

definition resume :: "jsval completion \<Rightarrow> heap \<Rightarrow> heap \<times> ref completion" where
  "resume c h =
     (case try_block c h of
        (h', Throw e) \<Rightarrow> catch_clause e h'
      | (h', Normal a) \<Rightarrow> (h', Normal a))"

text \<open>
  The promise an \<open>async\<close> function returns is fulfilled with the value the body returns and
  rejected with the value the body throws; while the body is suspended it is pending.
\<close>

datatype call_state = Suspended | Fulfilled_with ref | Rejected_with jsval

fun settle :: "ref completion \<Rightarrow> call_state" where
  "settle (Normal a) = Fulfilled_with a"
| "settle (Throw x) = Rejected_with x"

text \<open>
  A whole call, from the final state of its argument: the state of the returned promise
  and the store. A call on a promise that never settles stays suspended.
\<close>

definition tryCatch :: "promise_state \<Rightarrow> heap \<Rightarrow> heap \<times> call_state" where
  "tryCatch promise h =
     (case await_promise promise of
        None \<Rightarrow> (h, Suspended)
      | Some c \<Rightarrow> (let (h', r) = resume c h in (h', settle r)))"

text \<open>What \<open>await tryCatch(promise)\<close> hands to the caller: the object the promise holds.\<close>

fun returned :: "heap \<times> call_state \<Rightarrow> result option" where
  "returned (h, Fulfilled_with a) = deref h a"
| "returned (h, Suspended) = None"
| "returned (h, Rejected_with x) = None"

section \<open>The discriminant\<close>

text \<open>
  The marker of an absent field is \<open>null\<close> (index.ts, lines 9 and 18): a field is
  populated when it holds anything else. A result is discriminated when exactly one of
  its two fields is populated.
\<close>

definition populated :: "jsval \<Rightarrow> bool" where
  "populated v \<longleftrightarrow> v \<noteq> JNull"

definition discriminated :: "result \<Rightarrow> bool" where
  "discriminated r \<longleftrightarrow>
     (populated (data r) \<and> \<not> populated (error r)) \<or>
     (\<not> populated (data r) \<and> populated (error r))"

section \<open>Calls in flight\<close>

text \<open>
  JavaScript runs one continuation at a time. A call of \<open>tryCatch\<close> runs up to its \<open>await\<close>
  and suspends there, also when the promise is already settled; when the promise has
  settled, the continuation runs once, from the completion of the \<open>await\<close> to the
  \<open>return\<close>. The state of a program that has made some calls is the store and the state
  of each call, in the order of the calls. The module has no variable: the store is all
  that the calls share.

  A caller that holds a result can read its fields, which changes nothing, and can
  assign to them: the object literals make ordinary objects, which nothing freezes, and
  the fields of \<open>Success\<close> and \<open>Failure\<close> are not \<open>readonly\<close>. Both are events too. An
  assignment through a reference to no object does not occur and is modelled as doing
  nothing.
\<close>

datatype field = DataField | ErrorField

fun assign :: "field \<Rightarrow> jsval \<Rightarrow> result \<Rightarrow> result" where
  "assign DataField v r = r\<lparr>data := v\<rparr>"
| "assign ErrorField v r = r\<lparr>error := v\<rparr>"

datatype event =
    Call
  | Settled nat "jsval completion"
  | Inspect ref
  | Assign ref field jsval

type_synonym system = "heap \<times> call_state list"

fun step :: "system \<Rightarrow> event \<Rightarrow> system" where
  "step (h, cs) Call = (h, cs @ [Suspended])"
| "step (h, cs) (Settled i c) =
     (if i < length cs \<and> cs ! i = Suspended
      then (let (h', r) = resume c h in (h', cs[i := settle r]))
      else (h, cs))"
| "step (h, cs) (Inspect a) = (h, cs)"
| "step (h, cs) (Assign a f v) =
     (if a < length h then (h[a := assign f v (h ! a)], cs) else (h, cs))"

text \<open>The events that write to the object at a reference: the assignments to its fields.\<close>

fun writes :: "event \<Rightarrow> ref \<Rightarrow> bool" where
  "writes (Assign b f v) a = (b = a)"
| "writes Call a = False"
| "writes (Settled i c) a = False"
| "writes (Inspect b) a = False"

definition run :: "system \<Rightarrow> event list \<Rightarrow> system" where
  "run s evs = foldl step s evs"


text \<open>What a caller finds when it reads the object at a reference and tests its \<open>error\<close>.\<close>

definition inspect :: "system \<Rightarrow> ref \<Rightarrow> branch option" where
  "inspect s a = map_option documented_usage (deref (fst s) a)"

text \<open>
  The event that resumes call \<open>i\<close>, from the final state of its argument: a promise that
  never settles never resumes its call.
\<close>

definition continuation :: "nat \<Rightarrow> promise_state \<Rightarrow> event list" where
  "continuation i p = (case await_promise p of None \<Rightarrow> [] | Some c \<Rightarrow> [Settled i c])"




section \<open>Basic facts\<close>

lemma deref_new:
  "deref (h @ [obj]) (length h) = Some obj"
  by (simp add: deref_def)

lemma deref_old:
  "deref h a = Some r \<Longrightarrow> deref (h @ objs) a = Some r"
  by (auto simp: deref_def nth_append split: if_splits)

lemma resume_Normal:
  "resume (Normal v) h = (h @ [\<lparr>data = v, error = JNull\<rparr>], Normal (length h))"
  by (simp add: resume_def alloc_def)

lemma resume_Throw:
  "resume (Throw e) h = (h @ [\<lparr>data = JNull, error = e\<rparr>], Normal (length h))"
  by (simp add: resume_def catch_clause_def alloc_def as_E_def)

lemma resume_shape:
  "\<exists>obj. resume c h = (h @ [obj], Normal (length h))"
  by (cases c) (simp_all add: resume_Normal resume_Throw)

lemma tryCatch_Fulfilled:
  "tryCatch (Fulfilled v) h = (h @ [\<lparr>data = v, error = JNull\<rparr>], Fulfilled_with (length h))"
  by (simp add: tryCatch_def resume_Normal)

lemma tryCatch_Rejected:
  "tryCatch (Rejected e) h = (h @ [\<lparr>data = JNull, error = e\<rparr>], Fulfilled_with (length h))"
  by (simp add: tryCatch_def resume_Throw)

lemma tryCatch_Pending:
  "tryCatch Pending h = (h, Suspended)"
  by (simp add: tryCatch_def)

lemma returned_Fulfilled:
  "returned (tryCatch (Fulfilled v) h) = Some \<lparr>data = v, error = JNull\<rparr>"
  by (simp add: tryCatch_Fulfilled deref_new)

lemma returned_Rejected:
  "returned (tryCatch (Rejected e) h) = Some \<lparr>data = JNull, error = e\<rparr>"
  by (simp add: tryCatch_Rejected deref_new)



lemma tryCatch_settled:
  assumes "promise \<noteq> Pending"
  shows "\<exists>r. tryCatch promise h = (h @ [r], Fulfilled_with (length h)) \<and>
             returned (tryCatch promise h) = Some r \<and>
             (promise = Fulfilled (data r) \<and> error r = JNull \<or>
              promise = Rejected (error r) \<and> data r = JNull)"
  using assms by (cases promise) (simp_all add: tryCatch_Fulfilled tryCatch_Rejected deref_new)

text \<open>
  The declared return type \<open>Result<T, E>\<close> holds of the returned object when the promise
  produces a value of \<open>T\<close> or fails with a value of \<open>E\<close>.
\<close>

lemma tryCatch_typed:
  assumes "returned (tryCatch promise h) = Some r"
    and "\<And>v. promise = Fulfilled v \<Longrightarrow> v \<in> T"
    and "\<And>e. promise = Rejected e \<Longrightarrow> e \<in> E"
  shows "Result T E r"
proof (cases promise)
  case Pending
  then show ?thesis using assms(1) by (simp add: tryCatch_Pending)
next
  case (Fulfilled v)
  then show ?thesis using assms(1) assms(2) [of v]
    by (auto simp: returned_Fulfilled Result_def Success_def)
next
  case (Rejected e)
  then show ?thesis using assms(1) assms(3) [of e]
    by (auto simp: returned_Rejected Result_def Failure_def)
qed


section \<open>Facts about calls in flight\<close>

lemma run_Nil: "run s [] = s"
  by (simp add: run_def)


lemma run_Cons: "run s (ev # evs) = run (step s ev) evs"
  by (simp add: run_def)


text \<open>
  An event that is not an assignment to the object at \<open>a\<close> leaves that object as it is:
  calls and inspections leave the store alone, a continuation adds one object at the
  end, and an assignment changes the object it names only.
\<close>

lemma step_preserves:
  assumes "\<not> writes ev a" and "deref (fst s) a = Some r"
  shows "deref (fst (step s ev)) a = Some r"
proof (cases s)
  case (Pair h cs)
  show ?thesis
  proof (cases ev)
    case Call
    then show ?thesis using assms Pair by simp
  next
    case (Settled i c)
    obtain obj where "resume c h = (h @ [obj], Normal (length h))"
      using resume_shape by blast
    then show ?thesis using assms Pair Settled by (simp add: deref_old)
  next
    case (Inspect b)
    then show ?thesis using assms Pair by simp
  next
    case (Assign b f v)
    then have "b \<noteq> a" using assms(1) by simp
    then show ?thesis using assms(2) Pair Assign
      by (auto simp: deref_def split: if_splits)
  qed
qed

lemma run_preserves:
  "\<forall>ev\<in>set evs. \<not> writes ev a \<Longrightarrow> deref (fst s) a = Some r \<Longrightarrow>
   deref (fst (run s evs)) a = Some r"
proof (induction evs arbitrary: s)
  case Nil
  then show ?case by (simp add: run_Nil)
next
  case (Cons ev evs)
  have "deref (fst (step s ev)) a = Some r"
    using step_preserves [of ev a s r] Cons.prems by simp
  then show ?case using Cons.IH [of "step s ev"] Cons.prems(1) by (simp add: run_Cons)
qed


lemma step_terminal:
  assumes "i < length cs" and "cs ! i \<noteq> Suspended"
  shows "i < length (snd (step (h, cs) ev)) \<and> snd (step (h, cs) ev) ! i = cs ! i"
proof (cases ev)
  case Call
  then show ?thesis using assms by (simp add: nth_append)
next
  case (Settled j c)
  obtain h' r where "resume c h = (h', r)" by (cases "resume c h")
  then show ?thesis using assms Settled by (auto simp: nth_list_update)
next
  case (Inspect a)
  then show ?thesis using assms by simp
next
  case (Assign a f v)
  then show ?thesis using assms by simp
qed

lemma run_terminal:
  "i < length cs \<Longrightarrow> cs ! i \<noteq> Suspended \<Longrightarrow>
   i < length (snd (run (h, cs) evs)) \<and> snd (run (h, cs) evs) ! i = cs ! i"
proof (induction evs arbitrary: h cs)
  case Nil
  then show ?case by (simp add: run_Nil)
next
  case (Cons ev evs)
  obtain h' cs' where st: "step (h, cs) ev = (h', cs')"
    by (cases "step (h, cs) ev")
  have 1: "i < length cs' \<and> cs' ! i = cs ! i"
    using step_terminal [OF Cons.prems, of h ev] st by simp
  then have "i < length (snd (run (h', cs') evs)) \<and> snd (run (h', cs') evs) ! i = cs' ! i"
    using Cons.IH [of cs' h'] Cons.prems(2) by simp
  then show ?case using 1 st by (simp add: run_Cons)
qed

text \<open>One call on its own, as events: the call, then its continuation.\<close>

lemma run_single_call:
  "run (h, []) (Call # continuation 0 promise) =
     (fst (tryCatch promise h), [snd (tryCatch promise h)])"
proof (cases "await_promise promise")
  case None
  then show ?thesis by (simp add: run_def continuation_def tryCatch_def)
next
  case (Some c)
  obtain h' r where "resume c h = (h', r)" by (cases "resume c h")
  then show ?thesis using Some by (simp add: run_def continuation_def tryCatch_def)
qed

subsection \<open>The invariant of two calls\<close>









section \<open>The two outcomes\<close>

text \<open>
  C1. When the promise is fulfilled with a value \<open>v\<close>, the call returns a new object whose
  \<open>data\<close> field is \<open>v\<close> itself and whose \<open>error\<close> field is \<open>null\<close>, an object of the type
  \<open>Success<T>\<close> for the type of \<open>v\<close>; nothing else in the store changes.
\<close>

theorem tryCatch_success:
  "returned (tryCatch (Fulfilled v) h) = Some \<lparr>data = v, error = JNull\<rparr>
   \<and> Success {v} \<lparr>data = v, error = JNull\<rparr>
   \<and> tryCatch (Fulfilled v) h =
       (h @ [\<lparr>data = v, error = JNull\<rparr>], Fulfilled_with (length h))"
  by (simp add: tryCatch_Fulfilled deref_new Success_def)

text \<open>
  C2. When the promise is rejected with a value \<open>e\<close>, the call returns a new object whose
  \<open>error\<close> field is \<open>e\<close> itself (for an object, the same reference) and whose \<open>data\<close> field
  is \<open>null\<close>; nothing else in the store changes.
\<close>

theorem tryCatch_failure:
  "returned (tryCatch (Rejected e) h) = Some \<lparr>data = JNull, error = e\<rparr>
   \<and> Failure {e} \<lparr>data = JNull, error = e\<rparr>
   \<and> tryCatch (Rejected e) h =
       (h @ [\<lparr>data = JNull, error = e\<rparr>], Fulfilled_with (length h))"
  by (simp add: tryCatch_Rejected deref_new Failure_def)

text \<open>
  C3. Whatever the state of the argument, the promise that \<open>tryCatch\<close> returns is never
  rejected: no value is thrown out of the function, and its continuation after the
  \<open>await\<close> never completes with a throw. A throw of the \<open>await\<close> goes to the \<open>catch\<close>
  clause, which builds the object \<open>{ data: null, error }\<close> around the thrown value and
  returns it: a call on a rejected promise returns that object. A call stays suspended
  only when its argument never settles; otherwise it returns.
\<close>

theorem tryCatch_never_throws:
  "snd (tryCatch promise h) \<noteq> Rejected_with x
   \<and> snd (resume c h) \<noteq> Throw x
   \<and> resume (Throw e) h = catch_clause e h
   \<and> catch_clause e h = (h @ [\<lparr>data = JNull, error = e\<rparr>], Normal (length h))
   \<and> tryCatch (Rejected e) h =
       (h @ [\<lparr>data = JNull, error = e\<rparr>], Fulfilled_with (length h))
   \<and> returned (tryCatch (Rejected e) h) = Some \<lparr>data = JNull, error = e\<rparr>
   \<and> (snd (tryCatch promise h) = Suspended \<longleftrightarrow> promise = Pending)"
proof (intro conjI)
  show "snd (tryCatch promise h) \<noteq> Rejected_with x"
    by (cases promise) (simp_all add: tryCatch_Pending tryCatch_Fulfilled tryCatch_Rejected)
  show "snd (resume c h) \<noteq> Throw x"
    by (cases c) (simp_all add: resume_Normal resume_Throw)
  show "resume (Throw e) h = catch_clause e h"
    by (simp add: resume_def)
  show "catch_clause e h = (h @ [\<lparr>data = JNull, error = e\<rparr>], Normal (length h))"
    by (simp add: catch_clause_def alloc_def as_E_def)
  show "tryCatch (Rejected e) h =
      (h @ [\<lparr>data = JNull, error = e\<rparr>], Fulfilled_with (length h))"
    by (rule tryCatch_Rejected)
  show "returned (tryCatch (Rejected e) h) = Some \<lparr>data = JNull, error = e\<rparr>"
    by (rule returned_Rejected)
  show "snd (tryCatch promise h) = Suspended \<longleftrightarrow> promise = Pending"
    by (cases promise) (simp_all add: tryCatch_Pending tryCatch_Fulfilled tryCatch_Rejected)
qed

section \<open>The discriminant of a result\<close>

text \<open>
  C4, as the specification states it, fails: a promise that resolves with \<open>null\<close> and a
  promise that rejects with \<open>null\<close> both give \<open>{ data: null, error: null }\<close>, where neither
  field is populated.
\<close>

theorem discriminant_counterexample:
  "returned (tryCatch (Fulfilled JNull) []) = Some \<lparr>data = JNull, error = JNull\<rparr>
   \<and> returned (tryCatch (Rejected JNull) []) = Some \<lparr>data = JNull, error = JNull\<rparr>
   \<and> \<not> discriminated \<lparr>data = JNull, error = JNull\<rparr>"
  by (simp add: returned_Fulfilled returned_Rejected discriminated_def populated_def)

text \<open>
  C4, amended. In every result of \<open>tryCatch\<close> the two fields are never both populated, and
  exactly one of them is populated unless the promise resolved with \<open>null\<close> or rejected
  with \<open>null\<close>.
\<close>

theorem discriminant_unless_null:
  assumes "returned (tryCatch promise h) = Some r"
  shows "\<not> (populated (data r) \<and> populated (error r))
       \<and> (discriminated r \<longleftrightarrow> promise \<noteq> Fulfilled JNull \<and> promise \<noteq> Rejected JNull)"
proof (cases promise)
  case Pending
  then show ?thesis using assms by (simp add: tryCatch_Pending)
next
  case (Fulfilled v)
  then have "r = \<lparr>data = v, error = JNull\<rparr>"
    using assms by (simp add: returned_Fulfilled)
  then show ?thesis using Fulfilled by (simp add: discriminated_def populated_def)
next
  case (Rejected e)
  then have "r = \<lparr>data = JNull, error = e\<rparr>"
    using assms by (simp add: returned_Rejected)
  then show ?thesis using Rejected by (simp add: discriminated_def populated_def)
qed

theorem discriminant_unless_null_witness:
  "returned (tryCatch (Rejected (JStr ''oops'')) []) =
     Some \<lparr>data = JNull, error = JStr ''oops''\<rparr>
   \<and> discriminated \<lparr>data = JNull, error = JStr ''oops''\<rparr>
   \<and> \<not> (populated (data \<lparr>data = JNull, error = JStr ''oops''\<rparr>)
        \<and> populated (error \<lparr>data = JNull, error = JStr ''oops''\<rparr>))"
proof -
  have r: "returned (tryCatch (Rejected (JStr ''oops'')) []) =
      Some \<lparr>data = JNull, error = JStr ''oops''\<rparr>"
    by (simp add: returned_Rejected)
  show ?thesis using discriminant_unless_null [OF r] r by simp
qed

text \<open>
  C5. A promise that rejects with \<open>null\<close> gives \<open>{ data: null, error: null }\<close>, the very
  result of a promise that resolves with \<open>null\<close>, and the documented test
  \<open>if (result.error)\<close> takes it down the path that uses \<open>result.data\<close>.
\<close>

theorem rejected_null_reads_as_success:
  "returned (tryCatch (Rejected JNull) h) = Some \<lparr>data = JNull, error = JNull\<rparr>
   \<and> returned (tryCatch (Rejected JNull) h) = returned (tryCatch (Fulfilled JNull) h)
   \<and> map_option documented_usage (returned (tryCatch (Rejected JNull) h)) = Some DataBranch"
  by (simp add: returned_Fulfilled returned_Rejected documented_usage_def)

text \<open>
  C6. A failure value outside the error type \<open>E\<close> that the caller names (a string or
  \<open>null\<close>, say, where \<open>E\<close> is a type of error objects) is returned in the \<open>error\<close> field as
  it is. The object has the shape of a failure and is not of the declared type
  \<open>Failure<E>\<close>: no check rejected the value and no conversion brought it into \<open>E\<close>.
\<close>

theorem failure_value_unchecked:
  assumes "e \<notin> E"
  shows "returned (tryCatch (Rejected e) h) = Some \<lparr>data = JNull, error = e\<rparr>
       \<and> Failure UNIV \<lparr>data = JNull, error = e\<rparr>
       \<and> \<not> Failure E \<lparr>data = JNull, error = e\<rparr>"
  using assms by (simp add: returned_Rejected Failure_def)

theorem failure_value_unchecked_witness:
  "JStr ''oops'' \<notin> range JObj
   \<and> returned (tryCatch (Rejected (JStr ''oops'')) []) =
       Some \<lparr>data = JNull, error = JStr ''oops''\<rparr>
   \<and> JNull \<notin> range JObj
   \<and> returned (tryCatch (Rejected JNull) []) = Some \<lparr>data = JNull, error = JNull\<rparr>"
proof -
  have 1: "JStr ''oops'' \<notin> range JObj" and 2: "JNull \<notin> range JObj" by auto
  show ?thesis
    using failure_value_unchecked [OF 1, of "[]"] failure_value_unchecked [OF 2, of "[]"] 1 2
    by simp
qed

text \<open>
  C7. A promise that resolves with \<open>undefined\<close> gives \<open>{ data: undefined, error: null }\<close>:
  an object of the success type, with the \<open>null\<close> marker in \<open>error\<close>, that the documented
  test takes down the path that uses \<open>result.data\<close>.
\<close>

theorem resolved_undefined_is_success:
  "returned (tryCatch (Fulfilled JUndefined) h) = Some \<lparr>data = JUndefined, error = JNull\<rparr>
   \<and> Success {JUndefined} \<lparr>data = JUndefined, error = JNull\<rparr>
   \<and> documented_usage \<lparr>data = JUndefined, error = JNull\<rparr> = DataBranch"
  by (simp add: returned_Fulfilled Success_def documented_usage_def)

section \<open>Calls in flight together\<close>



text \<open>
  C9, as the specification states it, fails: the object that \<open>tryCatch\<close> returns is an
  ordinary object, and an assignment to one of its fields changes what the next
  inspection finds. Here the result of a promise that resolved with \<open>''ok''\<close> is inspected,
  its \<open>error\<close> field is assigned, and it is inspected again.
\<close>

theorem result_mutable_counterexample:
  "tryCatch (Fulfilled (JStr ''ok'')) [] =
     ([\<lparr>data = JStr ''ok'', error = JNull\<rparr>], Fulfilled_with 0)
   \<and> inspect ([\<lparr>data = JStr ''ok'', error = JNull\<rparr>], [Fulfilled_with 0]) 0 = Some DataBranch
   \<and> inspect (run ([\<lparr>data = JStr ''ok'', error = JNull\<rparr>], [Fulfilled_with 0])
        [Inspect 0, Assign 0 ErrorField (JStr ''x''), Inspect 0]) 0 = Some ErrorBranch
   \<and> deref (fst (run ([\<lparr>data = JStr ''ok'', error = JNull\<rparr>], [Fulfilled_with 0])
        [Inspect 0, Assign 0 ErrorField (JStr ''x''), Inspect 0])) 0
      = Some \<lparr>data = JStr ''ok'', error = JStr ''x''\<rparr>"
  by (simp add: tryCatch_Fulfilled inspect_def deref_def documented_usage_def run_def)

text \<open>
  C9, amended. \<open>tryCatch\<close> never modifies an object it has returned, and an inspection
  modifies nothing: whatever happens afterwards (further calls, continuations of calls in
  flight, inspections of any result, assignments to other objects), as long as nothing
  assigns to a field of the object, it is in the store with the same two fields, and the
  test of its \<open>error\<close> field gives the same answer as at first.
\<close>

theorem result_unchanged_without_write:
  assumes "tryCatch promise h0 = (h, Fulfilled_with a)"
    and "\<forall>ev\<in>set evs. \<not> writes ev a"
  shows "(\<exists>r. deref h a = Some r)
       \<and> deref (fst (run (h, cs) evs)) a = deref h a
       \<and> inspect (run (h, cs) evs) a = inspect (h, cs) a"
proof -
  have "promise \<noteq> Pending" using assms(1) by (auto simp: tryCatch_Pending)
  from tryCatch_settled [OF this, of h0] assms(1)
  obtain r where r: "deref h a = Some r" by auto
  have "deref (fst (run (h, cs) evs)) a = Some r"
    using run_preserves [OF assms(2), of "(h, cs)" r] r by simp
  then show ?thesis using r by (simp add: inspect_def)
qed

theorem result_unchanged_without_write_witness:
  "tryCatch (Rejected (JStr ''boom'')) [] =
     ([\<lparr>data = JNull, error = JStr ''boom''\<rparr>], Fulfilled_with 0)
   \<and> \<not> writes (Assign 1 ErrorField (JBool True)) 0
   \<and> deref (fst (run ([\<lparr>data = JNull, error = JStr ''boom''\<rparr>], [Fulfilled_with 0])
        [Inspect 0, Call, Settled 1 (Normal JNull), Assign 1 ErrorField (JBool True),
         Settled 0 (Normal JNull), Inspect 0])) 0
      = Some \<lparr>data = JNull, error = JStr ''boom''\<rparr>
   \<and> inspect (run ([\<lparr>data = JNull, error = JStr ''boom''\<rparr>], [Fulfilled_with 0])
        [Inspect 0, Call, Settled 1 (Normal JNull), Assign 1 ErrorField (JBool True),
         Settled 0 (Normal JNull), Inspect 0]) 0
      = Some ErrorBranch"
proof -
  have t: "tryCatch (Rejected (JStr ''boom'')) [] =
      ([\<lparr>data = JNull, error = JStr ''boom''\<rparr>], Fulfilled_with 0)"
    by (simp add: tryCatch_Rejected)
  have w: "\<forall>ev\<in>set [Inspect 0, Call, Settled 1 (Normal JNull),
      Assign 1 ErrorField (JBool True), Settled 0 (Normal JNull), Inspect 0]. \<not> writes ev 0"
    by simp
  show ?thesis
    using result_unchanged_without_write [OF t w, of "[Fulfilled_with 0]"] t
    by (simp add: deref_def inspect_def documented_usage_def)
qed

text \<open>
  C10. A call on a promise that settles ends with a returned object, by one of two
  exits: the \<open>return\<close> of the \<open>try\<close> block when the promise is fulfilled, that of the \<open>catch\<close>
  clause when it is rejected. As events: the call suspends once, at its \<open>await\<close>; its one
  continuation takes it from there to the returned object; and nothing that happens
  afterwards changes the state of the call.
\<close>

theorem tryCatch_terminates:
  assumes "promise \<noteq> Pending"
  shows "\<exists>r. tryCatch promise h = (h @ [r], Fulfilled_with (length h))
           \<and> (promise = Fulfilled (data r) \<and> error r = JNull \<or>
              promise = Rejected (error r) \<and> data r = JNull)
           \<and> run (h, []) [Call] = (h, [Suspended])
           \<and> run (h, [Suspended]) (continuation 0 promise) =
               (h @ [r], [Fulfilled_with (length h)])
           \<and> snd (run (h @ [r], [Fulfilled_with (length h)]) evs) ! 0 =
               Fulfilled_with (length h)"
proof -
  from tryCatch_settled [OF assms, of h] obtain r
    where t: "tryCatch promise h = (h @ [r], Fulfilled_with (length h))"
      and b: "promise = Fulfilled (data r) \<and> error r = JNull \<or>
              promise = Rejected (error r) \<and> data r = JNull" by blast
  have c: "run (h, []) [Call] = (h, [Suspended])"
    by (simp add: run_def)
  have "run (h, []) (Call # continuation 0 promise) = (h @ [r], [Fulfilled_with (length h)])"
    using run_single_call [of h promise] t by simp
  then have k: "run (h, [Suspended]) (continuation 0 promise) =
      (h @ [r], [Fulfilled_with (length h)])"
    by (simp add: run_def)
  have e: "snd (run (h @ [r], [Fulfilled_with (length h)]) evs) ! 0 = Fulfilled_with (length h)"
    using run_terminal [of 0 "[Fulfilled_with (length h)]" "h @ [r]" evs] by simp
  show ?thesis using t b c k e by blast
qed

theorem tryCatch_terminates_witness:
  "Rejected (JStr ''boom'') \<noteq> Pending
   \<and> (\<exists>r. tryCatch (Rejected (JStr ''boom'')) [] = ([r], Fulfilled_with 0)
         \<and> error r = JStr ''boom'' \<and> data r = JNull
         \<and> snd (run ([r], [Fulfilled_with 0]) [Settled 0 (Normal JNull), Call]) ! 0 =
             Fulfilled_with 0)"
  using tryCatch_terminates [of "Rejected (JStr ''boom'')" "[]"
      "[Settled 0 (Normal JNull), Call]"]
  by auto

end
